theory Spec2Isabelle
  imports Main
begin

section \<open>Values of a request, rows of the store\<close>

text \<open>
  The server is one file, \<^verbatim>\<open>server.js\<close>: Express handlers, each of which checks the
  fields of the request and then runs one SQL statement through \<^verbatim>\<open>pool.query\<close>.
  A handler is modelled as a function from the request and the tables to the response
  (status code and body) and the tables afterwards. The handlers of the tasks run
  behind \<^verbatim>\<open>authenticateToken\<close>; they are given the user id of the verified token. A
  statement fails (and the handler answers 500) when the store does not take one of
  its parameters or the row would violate a constraint of its table; a store that
  cannot be reached is not modelled.

  A field of a JSON body is a key that is missing (\<open>JUndefined\<close>), \<^verbatim>\<open>null\<close>, a boolean
  or a string. Numbers, arrays and objects are outside this model. Strings are lists of
  single-byte characters. \<open>truthy\<close> is JavaScript's conversion to a boolean, the test
  behind \<^verbatim>\<open>!title\<close> and \<^verbatim>\<open>status && ...\<close>.
\<close>

datatype jsval = JUndefined | JNull | JBool bool | JStr string

fun truthy :: "jsval \<Rightarrow> bool" where
  "truthy JUndefined = False"
| "truthy JNull = False"
| "truthy (JBool b) = b"
| "truthy (JStr s) = (s \<noteq> [])"

text \<open>\<^verbatim>\<open>!v\<close> of the source.\<close>

fun js_not :: "jsval \<Rightarrow> bool" where
  "js_not v = (\<not> truthy v)"

text \<open>
  \<^verbatim>\<open>Array.prototype.includes\<close> on an array of strings: only a string that is an element
  of the array is included.
\<close>

fun js_includes :: "string list \<Rightarrow> jsval \<Rightarrow> bool" where
  "js_includes xs (JStr s) = (s \<in> set xs)"
| "js_includes xs JUndefined = False"
| "js_includes xs JNull = False"
| "js_includes xs (JBool b) = False"

text \<open>
  The driver's conversion of a query parameter (\<^verbatim>\<open>prepareValue\<close> of \<^verbatim>\<open>pg\<close>):
  \<^verbatim>\<open>undefined\<close> and \<^verbatim>\<open>null\<close> are sent as SQL NULL (\<open>None\<close>), anything else as the text
  of its \<^verbatim>\<open>toString()\<close>.
\<close>

fun prepareValue :: "jsval \<Rightarrow> string option" where
  "prepareValue JUndefined = None"
| "prepareValue JNull = None"
| "prepareValue (JBool b) = Some (if b then ''true'' else ''false'')"
| "prepareValue (JStr s) = Some s"

text \<open>
  The tables of \<^verbatim>\<open>initializeDatabase\<close>. A nullable column is an \<open>option\<close>; a timestamp
  is an integer (its position on the time line).
\<close>

record user =
  u_id :: int
  username :: string
  email :: string
  password :: string
  u_created_at :: int

record task =
  t_id :: int
  user_id :: int
  title :: string
  description :: "string option"
  status :: "string option"
  priority :: "string option"
  deadline :: "int option"
  created_at :: int

text \<open>
  The store: both tables, in the order in which the store returns their rows when a
  statement gives no other order.
\<close>

record db =
  users :: "user list"
  tasks :: "task list"

text \<open>
  What the handlers use and \<^verbatim>\<open>server.js\<close> does not define: how the store reads
  the text of an integer and of a timestamp parameter (\<open>None\<close>: it rejects the text,
  and the statement throws), JavaScript's \<^verbatim>\<open>Date.parse\<close> (\<open>None\<close>: NaN) and the
  timestamp the store receives for a \<^verbatim>\<open>Date\<close> (\<open>None\<close>: outside its range),
  \<^verbatim>\<open>bcrypt.compare\<close> on a password and a stored hash, and \<^verbatim>\<open>jwt.sign\<close> on the claims
  \<open>id\<close>, \<open>username\<close>.
\<close>

record engine =
  int4_in :: "string \<Rightarrow> int option"
  timestamp_in :: "string \<Rightarrow> int option"
  Date_parse :: "string \<Rightarrow> int option"
  date_to_timestamp :: "int \<Rightarrow> int option"
  bcrypt_compare :: "string \<Rightarrow> string \<Rightarrow> bool"
  jwt_sign :: "int \<Rightarrow> string \<Rightarrow> string"

text \<open>
  A text that is to be stored: the store does not take a text with the character of
  code 0.
\<close>

definition text_in :: "string \<Rightarrow> string option" where
  "text_in s = (if CHR 0x00 \<in> set s then None else Some s)"

text \<open>
  A text for a \<^verbatim>\<open>VARCHAR(n)\<close> column: a longer string is an error, unless the excess
  characters are all spaces, in which case the string is cut to \<open>n\<close> characters.
\<close>

definition varchar :: "nat \<Rightarrow> string \<Rightarrow> string option" where
  "varchar n s =
     (if length s \<le> n then Some s
      else if list_all (\<lambda>c. c = CHR '' '') (drop n s) then Some (take n s)
      else None)"

definition varchar_in :: "nat \<Rightarrow> string \<Rightarrow> string option" where
  "varchar_in n s = (case text_in s of None \<Rightarrow> None | Some t \<Rightarrow> varchar n t)"

text \<open>A nullable parameter read by \<open>f\<close>: NULL stays NULL, a text must be accepted.\<close>

fun nullable :: "(string \<Rightarrow> 'a option) \<Rightarrow> string option \<Rightarrow> 'a option option" where
  "nullable f None = Some None"
| "nullable f (Some s) = map_option Some (f s)"

text \<open>\<^verbatim>\<open>COALESCE(a, b)\<close>.\<close>

fun coalesce :: "'a option \<Rightarrow> 'a option \<Rightarrow> 'a option" where
  "coalesce None b = b"
| "coalesce (Some x) b = Some x"

text \<open>The response: the status code and what \<^verbatim>\<open>send\<close> or \<^verbatim>\<open>json\<close> is given.\<close>

datatype payload =
  Text string
| Message string
| Row task
| Rows "task list"
| Login string string

type_synonym response = "nat \<times> payload"

section \<open>Tasks: create, update, delete\<close>

definition validPriorities :: "string list" where
  "validPriorities = [''low'', ''medium'', ''high'']"

definition validStatuses :: "string list" where
  "validStatuses = [''pending'', ''in-progress'', ''completed'']"

record task_body =
  b_title :: jsval
  b_description :: jsval
  b_status :: jsval
  b_priority :: jsval
  b_deadline :: jsval

text \<open>
  The five parameters \<^verbatim>\<open>[title, description, status, priority, deadline]\<close> of the
  \<^verbatim>\<open>INSERT\<close> and of the \<^verbatim>\<open>UPDATE\<close>, as the store takes them for the columns
  \<^verbatim>\<open>title VARCHAR(255)\<close>, \<^verbatim>\<open>description TEXT\<close>, \<^verbatim>\<open>status VARCHAR(50)\<close>,
  \<^verbatim>\<open>priority VARCHAR(50)\<close> and \<^verbatim>\<open>deadline TIMESTAMP\<close>; the text of the deadline is
  left to \<open>timestamp_in\<close>. A parameter the store does not take makes \<^verbatim>\<open>pool.query\<close>
  throw before any row is touched (\<open>None\<close>).
\<close>

record task_params =
  p_title :: "string option"
  p_description :: "string option"
  p_status :: "string option"
  p_priority :: "string option"
  p_deadline :: "int option"

definition bind_params :: "engine \<Rightarrow> task_body \<Rightarrow> task_params option" where
  "bind_params E b =
     (case nullable (varchar_in 255) (prepareValue (b_title b)) of
        None \<Rightarrow> None
      | Some ti \<Rightarrow>
          (case nullable text_in (prepareValue (b_description b)) of
             None \<Rightarrow> None
           | Some de \<Rightarrow>
               (case nullable (varchar_in 50) (prepareValue (b_status b)) of
                  None \<Rightarrow> None
                | Some st \<Rightarrow>
                    (case nullable (varchar_in 50) (prepareValue (b_priority b)) of
                       None \<Rightarrow> None
                     | Some pr \<Rightarrow>
                         (case nullable (timestamp_in E) (prepareValue (b_deadline b)) of
                            None \<Rightarrow> None
                          | Some dl \<Rightarrow>
                              Some \<lparr>p_title = ti, p_description = de, p_status = st,
                                    p_priority = pr, p_deadline = dl\<rparr>)))))"

text \<open>
  \<^verbatim>\<open>INSERT INTO tasks (user_id, title, description, status, priority, deadline)
  VALUES ($1, ..., $6) RETURNING *\<close>: \<open>id\<close> takes the value \<open>new_id\<close> that the sequence
  of \<^verbatim>\<open>id SERIAL\<close> gives, \<open>created_at\<close> the current time \<open>now\<close>. \<open>title\<close> is NOT NULL,
  \<^verbatim>\<open>user_id INT REFERENCES users(id)\<close> asks for a row of \<open>users\<close> with this id, and
  \<^verbatim>\<open>id SERIAL PRIMARY KEY\<close> for an id that no row of \<open>tasks\<close> has: the statement fails
  (\<open>None\<close>) when one of the three is violated. The result is the returned row and the
  new store.
\<close>

definition insert_task :: "engine \<Rightarrow> int \<Rightarrow> int \<Rightarrow> int \<Rightarrow> task_body \<Rightarrow> db \<Rightarrow> (task \<times> db) option" where
  "insert_task E new_id now uid b d =
     (case bind_params E b of
        None \<Rightarrow> None
      | Some p \<Rightarrow>
          (case p_title p of
             None \<Rightarrow> None
           | Some ti \<Rightarrow>
               if uid \<in> set (map u_id (users d)) \<and> new_id \<notin> set (map t_id (tasks d))
               then (let row = \<lparr>t_id = new_id, user_id = uid, title = ti,
                                description = p_description p, status = p_status p,
                                priority = p_priority p, deadline = p_deadline p,
                                created_at = now\<rparr>
                     in Some (row, d\<lparr>tasks := tasks d @ [row]\<rparr>))
               else None))"

text \<open>\<^verbatim>\<open>app.post("/tasks", authenticateToken, ...)\<close>, for the user \<open>uid\<close> of the
  verified token (\<^verbatim>\<open>req.user.id\<close>).\<close>

definition create_task :: "engine \<Rightarrow> int \<Rightarrow> int \<Rightarrow> int \<Rightarrow> task_body \<Rightarrow> db \<Rightarrow> response \<times> db" where
  "create_task E new_id now uid b d =
     (if js_not (b_title b) \<or> js_not (b_priority b)
        then ((400, Text ''Title and priority are required''), d)
      else if \<not> js_includes validPriorities (b_priority b)
        then ((400, Text ''Invalid priority''), d)
      else if truthy (b_status b) \<and> \<not> js_includes validStatuses (b_status b)
        then ((400, Text ''Invalid status''), d)
      else
        (case insert_task E new_id now uid b d of
           None \<Rightarrow> ((500, Text ''Failed to create task''), d)
         | Some (row, d') \<Rightarrow> ((201, Row row), d')))"

text \<open>
  \<^verbatim>\<open>UPDATE tasks SET title = COALESCE($1, title), ..., deadline = COALESCE($5, deadline)
  WHERE id = $6 AND user_id = $7 RETURNING *\<close>. The result is the list of the updated
  rows and the new store.
\<close>

definition update_row :: "task_params \<Rightarrow> task \<Rightarrow> task" where
  "update_row p t =
     t\<lparr>title := (case p_title p of None \<Rightarrow> title t | Some s \<Rightarrow> s),
       description := coalesce (p_description p) (description t),
       status := coalesce (p_status p) (status t),
       priority := coalesce (p_priority p) (priority t),
       deadline := coalesce (p_deadline p) (deadline t)\<rparr>"

definition owned_row :: "int \<Rightarrow> int \<Rightarrow> task \<Rightarrow> bool" where
  "owned_row tid uid t = (t_id t = tid \<and> user_id t = uid)"

definition update_query :: "engine \<Rightarrow> task_body \<Rightarrow> string \<Rightarrow> int \<Rightarrow> db \<Rightarrow> (task list \<times> db) option" where
  "update_query E b id_text uid d =
     (case bind_params E b of
        None \<Rightarrow> None
      | Some p \<Rightarrow>
          (case int4_in E id_text of
             None \<Rightarrow> None
           | Some tid \<Rightarrow>
               Some (map (update_row p) (filter (owned_row tid uid) (tasks d)),
                     d\<lparr>tasks := map (\<lambda>t. if owned_row tid uid t then update_row p t else t)
                                    (tasks d)\<rparr>)))"

text \<open>\<^verbatim>\<open>app.put("/tasks/:id", authenticateToken, ...)\<close>; \<open>id_text\<close> is
  \<^verbatim>\<open>req.params.id\<close>.\<close>

definition update_task :: "engine \<Rightarrow> int \<Rightarrow> string \<Rightarrow> task_body \<Rightarrow> db \<Rightarrow> response \<times> db" where
  "update_task E uid id_text b d =
     (if js_not (b_title b) \<and> js_not (b_description b) \<and> js_not (b_status b) \<and>
         js_not (b_priority b) \<and> js_not (b_deadline b)
        then ((400, Text ''At least one field must be provided to update''), d)
      else
        (case update_query E b id_text uid d of
           None \<Rightarrow> ((500, Text ''Failed to update task''), d)
         | Some ([], d') \<Rightarrow> ((404, Text ''Task not found or not authorized to update''), d')
         | Some (row # rest, d') \<Rightarrow> ((200, Row row), d')))"

text \<open>\<^verbatim>\<open>DELETE FROM tasks WHERE id = $1 AND user_id = $2 RETURNING *\<close>.\<close>

definition delete_query :: "engine \<Rightarrow> string \<Rightarrow> int \<Rightarrow> db \<Rightarrow> (task list \<times> db) option" where
  "delete_query E id_text uid d =
     (case int4_in E id_text of
        None \<Rightarrow> None
      | Some tid \<Rightarrow>
          Some (filter (owned_row tid uid) (tasks d),
                d\<lparr>tasks := filter (\<lambda>t. \<not> owned_row tid uid t) (tasks d)\<rparr>))"

text \<open>\<^verbatim>\<open>app.delete("/tasks/:id", authenticateToken, ...)\<close>.\<close>

definition delete_task :: "engine \<Rightarrow> int \<Rightarrow> string \<Rightarrow> db \<Rightarrow> response \<times> db" where
  "delete_task E uid id_text d =
     (case delete_query E id_text uid d of
        None \<Rightarrow> ((500, Text ''Failed to delete task''), d)
      | Some ([], d') \<Rightarrow> ((404, Text ''Task not found or not authorized to delete''), d')
      | Some (row # rest, d') \<Rightarrow> ((200, Text ''Task deleted successfully''), d'))"

section \<open>Tasks: list, filter, search\<close>

text \<open>
  \<^verbatim>\<open>ORDER BY\<close>: the rows are sorted by insertion, so that rows the order does not
  tell apart stay in the order of the table. \<open>le a b\<close> says that \<open>a\<close> may stand before
  \<open>b\<close>.
\<close>

fun insert_by :: "('a \<Rightarrow> 'a \<Rightarrow> bool) \<Rightarrow> 'a \<Rightarrow> 'a list \<Rightarrow> 'a list" where
  "insert_by le x [] = [x]"
| "insert_by le x (y # ys) = (if le x y then x # y # ys else y # insert_by le x ys)"

definition order_by :: "('a \<Rightarrow> 'a \<Rightarrow> bool) \<Rightarrow> 'a list \<Rightarrow> 'a list" where
  "order_by le xs = foldr (insert_by le) xs []"

text \<open>\<^verbatim>\<open>ORDER BY created_at DESC\<close>.\<close>

definition created_at_desc :: "task \<Rightarrow> task \<Rightarrow> bool" where
  "created_at_desc a b = (created_at b \<le> created_at a)"

text \<open>\<^verbatim>\<open>ORDER BY deadline DESC\<close>: in a descending order the store puts NULL first.\<close>

definition deadline_desc :: "task \<Rightarrow> task \<Rightarrow> bool" where
  "deadline_desc a b =
     (case deadline a of
        None \<Rightarrow> True
      | Some x \<Rightarrow> (case deadline b of None \<Rightarrow> False | Some y \<Rightarrow> y \<le> x))"

text \<open>\<^verbatim>\<open>app.get("/tasks", authenticateToken, ...)\<close>:
  \<^verbatim>\<open>SELECT * FROM tasks WHERE user_id = $1 ORDER BY created_at DESC\<close>.\<close>

definition list_tasks :: "int \<Rightarrow> db \<Rightarrow> response" where
  "list_tasks uid d =
     (200, Rows (order_by created_at_desc (filter (\<lambda>t. user_id t = uid) (tasks d))))"

text \<open>
  A value of \<^verbatim>\<open>req.query\<close> is missing (\<open>None\<close>) or a string. \<open>or_null\<close> is
  \<^verbatim>\<open>v || null\<close> as the driver sends it: a missing and an empty value are NULL.
\<close>

fun or_null :: "string option \<Rightarrow> string option" where
  "or_null None = None"
| "or_null (Some s) = (if s = [] then None else Some s)"

text \<open>
  The \<^verbatim>\<open>WHERE\<close> clause of the filter. A comparison with a NULL column is not true:
  \<^verbatim>\<open>($2::TEXT IS NULL OR status = $2) AND ($3::TEXT IS NULL OR priority = $3) AND
  ($4::TIMESTAMP IS NULL OR deadline <= $4)\<close>.
\<close>

definition filter_where :: "string option \<Rightarrow> string option \<Rightarrow> int option \<Rightarrow> task \<Rightarrow> bool" where
  "filter_where p2 p3 p4 t =
     ((case p2 of None \<Rightarrow> True | Some s \<Rightarrow> status t = Some s) \<and>
      (case p3 of None \<Rightarrow> True | Some s \<Rightarrow> priority t = Some s) \<and>
      (case p4 of None \<Rightarrow> True
       | Some x \<Rightarrow> (case deadline t of None \<Rightarrow> False | Some y \<Rightarrow> y \<le> x)))"

text \<open>\<^verbatim>\<open>due_date && isNaN(Date.parse(due_date))\<close>.\<close>

fun invalid_due_date :: "engine \<Rightarrow> string option \<Rightarrow> bool" where
  "invalid_due_date E None = False"
| "invalid_due_date E (Some s) = (s \<noteq> [] \<and> Date_parse E s = None)"

text \<open>\<^verbatim>\<open>due_date ? new Date(due_date) : null\<close> as the store receives it; \<open>None\<close> when
  the store does not take the date.\<close>

fun due_date_param :: "engine \<Rightarrow> string option \<Rightarrow> int option option" where
  "due_date_param E None = Some None"
| "due_date_param E (Some s) =
     (if s = [] then Some None
      else (case Date_parse E s of
              None \<Rightarrow> None
            | Some ms \<Rightarrow> map_option Some (date_to_timestamp E ms)))"

text \<open>\<^verbatim>\<open>app.get("/tasks/filter", authenticateToken, ...)\<close>. The route is registered
  twice with the same handler; Express runs the first.\<close>

definition filter_tasks ::
  "engine \<Rightarrow> int \<Rightarrow> string option \<Rightarrow> string option \<Rightarrow> string option \<Rightarrow> db \<Rightarrow> response" where
  "filter_tasks E uid q_status q_priority due_date d =
     (if invalid_due_date E due_date
        then (400, Message (''Invalid date format for 'due_date'' @ [CHR 0x27]))
      else
        (case due_date_param E due_date of
           None \<Rightarrow> (500, Message ''Failed to filter tasks'')
         | Some p4 \<Rightarrow>
             (200, Rows (order_by created_at_desc
                (filter (\<lambda>t. user_id t = uid \<and>
                              filter_where (or_null q_status) (or_null q_priority) p4 t)
                   (tasks d))))))"

text \<open>
  \<^verbatim>\<open>text LIKE pattern\<close>: in the pattern \<^verbatim>\<open>%\<close> stands for any string, \<^verbatim>\<open>_\<close> for any one
  character, and a backslash makes the character after it stand for itself. (A
  pattern that ends in such a backslash is an error of the store; no pattern that
  ends in \<^verbatim>\<open>%\<close> does.)
\<close>

fun like_match :: "string \<Rightarrow> string \<Rightarrow> bool" where
  "like_match [] s = (s = [])"
| "like_match (p # ps) s =
     (if p = CHR ''%''
        then (like_match ps s \<or> (case s of [] \<Rightarrow> False | c # cs \<Rightarrow> like_match (p # ps) cs))
      else if p = CHR ''_''
        then (case s of [] \<Rightarrow> False | c # cs \<Rightarrow> like_match ps cs)
      else if p = CHR 0x5C
        then (case ps of
                [] \<Rightarrow> False
              | q # qs \<Rightarrow> (case s of [] \<Rightarrow> False | c # cs \<Rightarrow> c = q \<and> like_match qs cs))
      else (case s of [] \<Rightarrow> False | c # cs \<Rightarrow> c = p \<and> like_match ps cs))"

text \<open>\<^verbatim>\<open>text ILIKE pattern\<close>: \<^verbatim>\<open>LIKE\<close> on both sides in lower case (the letters A to Z).\<close>

definition lower :: "char \<Rightarrow> char" where
  "lower c =
     (if 65 \<le> (of_char c :: nat) \<and> (of_char c :: nat) \<le> 90
      then char_of ((of_char c :: nat) + 32) else c)"

definition ilike :: "string \<Rightarrow> string \<Rightarrow> bool" where
  "ilike s pat = like_match (map lower pat) (map lower s)"

text \<open>\<^verbatim>\<open>title ILIKE $2 OR description ILIKE $2\<close>; a NULL description does not match.\<close>

definition search_where :: "string \<Rightarrow> task \<Rightarrow> bool" where
  "search_where pat t =
     (ilike (title t) pat \<or> (case description t of None \<Rightarrow> False | Some s \<Rightarrow> ilike s pat))"

text \<open>\<^verbatim>\<open>app.get("/tasks/search", authenticateToken, ...)\<close>: a missing or empty
  keyword is refused (\<^verbatim>\<open>!keyword\<close>); the pattern is \<^verbatim>\<open>`%${keyword}%`\<close>.\<close>

definition search_tasks :: "int \<Rightarrow> string option \<Rightarrow> db \<Rightarrow> response" where
  "search_tasks uid keyword d =
     (case or_null keyword of
        None \<Rightarrow> (400, Text ''Keyword is required for searching'')
      | Some k \<Rightarrow>
          (200, Rows (order_by deadline_desc
             (filter (\<lambda>t. user_id t = uid \<and> search_where (''%'' @ k @ ''%'') t)
                (tasks d)))))"

section \<open>Login\<close>

text \<open>
  \<^verbatim>\<open>app.post("/login", ...)\<close>:
  \<^verbatim>\<open>SELECT * FROM users WHERE email = $1 OR username = $1\<close>, then \<^verbatim>\<open>bcrypt.compare\<close>
  against the hash of \<^verbatim>\<open>rows[0]\<close>. \<^verbatim>\<open>bcrypt.compare\<close> throws on a password that is not a
  string.
\<close>

definition login :: "engine \<Rightarrow> jsval \<Rightarrow> jsval \<Rightarrow> db \<Rightarrow> response" where
  "login E emailOrUsername pw d =
     (if js_not emailOrUsername \<or> js_not pw
        then (400, Text ''Email/Username and password are required'')
      else
        (case filter (\<lambda>u. Some (email u) = prepareValue emailOrUsername \<or>
                           Some (username u) = prepareValue emailOrUsername) (users d) of
           [] \<Rightarrow> (404, Text ''User not found'')
         | u # rest \<Rightarrow>
             (case pw of
                JStr s \<Rightarrow>
                  if \<not> bcrypt_compare E s (password u) then (401, Text ''Invalid password'')
                  else (200, Login ''Login successful'' (jwt_sign E (u_id u) (username u)))
              | _ \<Rightarrow> (500, Text ''Internal server error''))))"

section \<open>An environment to run the handlers in\<close>

text \<open>
  For running the handlers on concrete requests: integers and timestamps are written
  as decimal digits, every date is in the store's range, the hash of a password is
  the password after a \<^verbatim>\<open>$\<close>, and a token is the user's name.
\<close>

fun digits_acc :: "string \<Rightarrow> nat \<Rightarrow> nat option" where
  "digits_acc [] n = Some n"
| "digits_acc (c # cs) n =
     (if 48 \<le> (of_char c :: nat) \<and> (of_char c :: nat) \<le> 57
      then digits_acc cs (10 * n + ((of_char c :: nat) - 48)) else None)"

definition digits_in :: "string \<Rightarrow> int option" where
  "digits_in s = (if s = [] then None else map_option int (digits_acc s 0))"

definition test_engine :: engine where
  "test_engine =
     \<lparr>int4_in = digits_in, timestamp_in = digits_in, Date_parse = digits_in,
      date_to_timestamp = Some, bcrypt_compare = (\<lambda>p h. h = CHR ''$'' # p),
      jwt_sign = (\<lambda>i n. n)\<rparr>"

text \<open>
  Two users, 7 and 8: the name of the first is the e-mail address of the second. The
  hashes are those of the passwords \<open>one\<close> and \<open>two\<close>.
\<close>

definition ann :: user where
  "ann = \<lparr>u_id = 7, username = ''bob@x.com'', email = ''ann@x.com'', password = ''$one'',
          u_created_at = 10\<rparr>"

definition bob :: user where
  "bob = \<lparr>u_id = 8, username = ''bob'', email = ''bob@x.com'', password = ''$two'',
          u_created_at = 20\<rparr>"

text \<open>The body \<^verbatim>\<open>{}\<close>, the store of the two users without a task, and the one
  with one task of user 7.\<close>

definition empty_body :: task_body where
  "empty_body =
     \<lparr>b_title = JUndefined, b_description = JUndefined, b_status = JUndefined,
      b_priority = JUndefined, b_deadline = JUndefined\<rparr>"

definition milk :: task where
  "milk =
     \<lparr>t_id = 1, user_id = 7, title = ''buy milk'', description = Some ''two litres'',
      status = None, priority = Some ''low'', deadline = None, created_at = 100\<rparr>"

definition no_tasks :: db where
  "no_tasks = \<lparr>users = [ann, bob], tasks = []\<rparr>"

definition milk_db :: db where
  "milk_db = \<lparr>users = [ann, bob], tasks = [milk]\<rparr>"

text \<open>The rows a response carries.\<close>

fun rows_of :: "response \<Rightarrow> task list" where
  "rows_of (c, Rows xs) = xs"
| "rows_of (c, Row t) = []"
| "rows_of (c, Text s) = []"
| "rows_of (c, Message s) = []"
| "rows_of (c, Login m t) = []"

text \<open>
  The text the driver sends for \<open>v\<close>, if any, is one the store takes (\<open>sendable\<close>)
  and has at most \<open>n\<close> characters (\<open>fits\<close>).
\<close>

definition sendable :: "jsval \<Rightarrow> bool" where
  "sendable v = (case prepareValue v of None \<Rightarrow> True | Some s \<Rightarrow> CHR 0x00 \<notin> set s)"

definition fits :: "nat \<Rightarrow> jsval \<Rightarrow> bool" where
  "fits n v = (sendable v \<and> (case prepareValue v of None \<Rightarrow> True | Some s \<Rightarrow> length s \<le> n))"

text \<open>
  "The title contains the keyword as a case-insensitive substring", in the words of
  the specification of the search: \<open>contains s k\<close> when \<open>k\<close> occurs in \<open>s\<close>, and
  \<open>contains_ci\<close> the same on both in lower case.
\<close>

fun starts_with :: "string \<Rightarrow> string \<Rightarrow> bool" where
  "starts_with s [] = True"
| "starts_with [] (k # ks) = False"
| "starts_with (c # cs) (k # ks) = (c = k \<and> starts_with cs ks)"

fun contains :: "string \<Rightarrow> string \<Rightarrow> bool" where
  "contains [] k = (k = [])"
| "contains (c # cs) k = (starts_with (c # cs) k \<or> contains cs k)"

definition contains_ci :: "string \<Rightarrow> string \<Rightarrow> bool" where
  "contains_ci s k = contains (map lower s) (map lower k)"

text \<open>A character that stands for itself in a \<^verbatim>\<open>LIKE\<close> pattern.\<close>

definition plain_char :: "char \<Rightarrow> bool" where
  "plain_char c = (c \<noteq> CHR ''%'' \<and> c \<noteq> CHR ''_'' \<and> c \<noteq> CHR 0x5C)"

section \<open>Update: the check of the body\<close>

lemma update_task_refused:
  "js_not (b_title b) \<Longrightarrow> js_not (b_description b) \<Longrightarrow> js_not (b_status b) \<Longrightarrow>
   js_not (b_priority b) \<Longrightarrow> js_not (b_deadline b) \<Longrightarrow>
   update_task E uid id_text b d =
     ((400, Text ''At least one field must be provided to update''), d)"
  by (simp add: update_task_def)

text \<open>
  C9. A \<^verbatim>\<open>PUT /tasks/:id\<close> whose five fields are all falsy (missing, \<^verbatim>\<open>null\<close>, \<^verbatim>\<open>false\<close>
  or the empty string) gets the answer of the request with no field at all: status
  400 with the same message, and the store is the one before the request.
\<close>

theorem update_falsy_fields_as_absent:
  assumes "js_not (b_title b)" and "js_not (b_description b)" and "js_not (b_status b)"
    and "js_not (b_priority b)" and "js_not (b_deadline b)"
  shows "update_task E uid id_text b d = update_task E uid id_text empty_body d \<and>
         update_task E uid id_text b d =
           ((400, Text ''At least one field must be provided to update''), d)"
proof -
  have "update_task E uid id_text empty_body d =
          ((400, Text ''At least one field must be provided to update''), d)"
    by (rule update_task_refused) (simp_all add: empty_body_def)
  moreover have "update_task E uid id_text b d =
          ((400, Text ''At least one field must be provided to update''), d)"
    using assms by (rule update_task_refused)
  ultimately show ?thesis by simp
qed

theorem update_falsy_fields_as_absent_witness:
  "update_task test_engine 7 ''1''
     \<lparr>b_title = JStr '''', b_description = JStr '''', b_status = JStr '''',
      b_priority = JStr '''', b_deadline = JStr ''''\<rparr> milk_db =
   update_task test_engine 7 ''1'' empty_body milk_db \<and>
   update_task test_engine 7 ''1''
     \<lparr>b_title = JStr '''', b_description = JStr '''', b_status = JStr '''',
      b_priority = JStr '''', b_deadline = JStr ''''\<rparr> milk_db =
   ((400, Text ''At least one field must be provided to update''), milk_db)"
  by (rule update_falsy_fields_as_absent) simp_all

section \<open>Update and delete: the rows they touch\<close>

lemma nullable_text_sendable:
  "sendable v \<Longrightarrow> nullable text_in (prepareValue v) = Some (prepareValue v)"
  by (cases "prepareValue v") (simp_all add: sendable_def text_in_def)

lemma nullable_varchar_fits:
  "fits n v \<Longrightarrow> nullable (varchar_in n) (prepareValue v) = Some (prepareValue v)"
  by (cases "prepareValue v")
    (simp_all add: fits_def sendable_def varchar_in_def text_in_def varchar_def)

lemma bind_params_fits:
  assumes "fits 255 (b_title b)" and "sendable (b_description b)"
    and "fits 50 (b_status b)" and "fits 50 (b_priority b)"
    and "nullable (timestamp_in E) (prepareValue (b_deadline b)) = Some dl"
  shows "bind_params E b =
           Some \<lparr>p_title = prepareValue (b_title b),
                 p_description = prepareValue (b_description b),
                 p_status = prepareValue (b_status b),
                 p_priority = prepareValue (b_priority b), p_deadline = dl\<rparr>"
  using assms by (simp add: bind_params_def nullable_varchar_fits nullable_text_sendable)

lemma update_task_bound:
  assumes "truthy (b_title b) \<or> truthy (b_description b) \<or> truthy (b_status b) \<or>
           truthy (b_priority b) \<or> truthy (b_deadline b)"
    and "bind_params E b = Some p" and "int4_in E id_text = Some tid"
  shows "update_task E uid id_text b d =
           (case filter (owned_row tid uid) (tasks d) of
              [] \<Rightarrow> (404, Text ''Task not found or not authorized to update'')
            | t # ts \<Rightarrow> (200, Row (update_row p t)),
            d\<lparr>tasks := map (\<lambda>t. if owned_row tid uid t then update_row p t else t)
                           (tasks d)\<rparr>)"
  using assms by (auto simp: update_task_def update_query_def split: list.splits)

lemma map_unowned: "filter P xs = [] \<Longrightarrow> map (\<lambda>t. if P t then f t else t) xs = xs"
  by (induction xs) (auto split: if_splits)

lemma filter_others_map:
  "filter (\<lambda>t. \<not> P t) (map (\<lambda>t. if P t then f t else t) xs) = filter (\<lambda>t. \<not> P t) xs"
  if "\<And>t. P t \<Longrightarrow> P (f t)"
  using that by (induction xs) auto

lemma owned_row_update_row: "owned_row tid uid t \<Longrightarrow> owned_row tid uid (update_row p t)"
  by (simp add: owned_row_def update_row_def)

lemma update_task_others:
  "filter (\<lambda>t. \<not> owned_row tid uid t) (tasks (snd (update_task E uid id_text b d))) =
   filter (\<lambda>t. \<not> owned_row tid uid t) (tasks d)"
  if "int4_in E id_text = Some tid"
  using that
  by (auto simp: update_task_def update_query_def filter_others_map owned_row_update_row
      split: option.splits list.splits)

lemma delete_task_others:
  "filter (\<lambda>t. \<not> owned_row tid uid t) (tasks (snd (delete_task E uid id_text d))) =
   filter (\<lambda>t. \<not> owned_row tid uid t) (tasks d)"
  if "int4_in E id_text = Some tid"
  using that by (auto simp: delete_task_def delete_query_def split: option.splits list.splits)

lemma filter_not_none: "filter P xs = [] \<Longrightarrow> filter (\<lambda>t. \<not> P t) xs = xs"
  by (induction xs) (auto split: if_splits)

lemma update_task_failed:
  "fst (fst (update_task E uid id_text b d)) \<noteq> 200 \<Longrightarrow>
   snd (update_task E uid id_text b d) = d"
  by (auto simp: update_task_def update_query_def map_unowned
      split: option.splits list.splits if_splits)

lemma delete_task_failed:
  "fst (fst (delete_task E uid id_text d)) \<noteq> 200 \<Longrightarrow>
   snd (delete_task E uid id_text d) = d"
  by (auto simp: delete_task_def delete_query_def filter_not_none
      split: option.splits list.splits if_splits)

lemma delete_task_not_found:
  "int4_in E id_text = Some tid \<Longrightarrow> filter (owned_row tid uid) (tasks d) = [] \<Longrightarrow>
   delete_task E uid id_text d =
     ((404, Text ''Task not found or not authorized to delete''), d)"
  by (simp add: delete_task_def delete_query_def filter_not_none)

lemma update_task_not_found:
  assumes "truthy (b_title b) \<or> truthy (b_description b) \<or> truthy (b_status b) \<or>
           truthy (b_priority b) \<or> truthy (b_deadline b)"
    and "bind_params E b = Some p" and "int4_in E id_text = Some tid"
    and "filter (owned_row tid uid) (tasks d) = []"
  shows "update_task E uid id_text b d =
           ((404, Text ''Task not found or not authorized to update''), d)"
  using assms by (simp add: update_task_bound map_unowned)

text \<open>
  C3. \<^verbatim>\<open>PUT /tasks/:id\<close> and \<^verbatim>\<open>DELETE /tasks/:id\<close> with the task id \<open>tid\<close>, sent by
  the user \<open>uid\<close>: whatever the outcome, the rows that are not the row \<open>tid\<close> of
  \<open>uid\<close> are afterwards what they were, in the same order. When no row has this id
  and this owner, the delete is answered 404, and so is an update that passes the
  check of its body and whose parameters the store takes; the answer is one fixed
  response, so it is the same whether the id is unknown or the row is another
  user's, and the store is unchanged. No request that is not answered 200 changes
  the store.
\<close>

theorem update_delete_touch_owned_row_only:
  assumes "int4_in E id_text = Some tid"
  shows "filter (\<lambda>t. \<not> owned_row tid uid t) (tasks (snd (update_task E uid id_text b d))) =
           filter (\<lambda>t. \<not> owned_row tid uid t) (tasks d) \<and>
         filter (\<lambda>t. \<not> owned_row tid uid t) (tasks (snd (delete_task E uid id_text d))) =
           filter (\<lambda>t. \<not> owned_row tid uid t) (tasks d) \<and>
         (filter (owned_row tid uid) (tasks d) = [] \<longrightarrow>
            delete_task E uid id_text d =
              ((404, Text ''Task not found or not authorized to delete''), d) \<and>
            ((truthy (b_title b) \<or> truthy (b_description b) \<or> truthy (b_status b) \<or>
              truthy (b_priority b) \<or> truthy (b_deadline b)) \<and> bind_params E b \<noteq> None \<longrightarrow>
             update_task E uid id_text b d =
               ((404, Text ''Task not found or not authorized to update''), d))) \<and>
         (fst (fst (update_task E uid id_text b d)) \<noteq> 200 \<longrightarrow>
            snd (update_task E uid id_text b d) = d) \<and>
         (fst (fst (delete_task E uid id_text d)) \<noteq> 200 \<longrightarrow>
            snd (delete_task E uid id_text d) = d)"
proof -
  have "update_task E uid id_text b d =
          ((404, Text ''Task not found or not authorized to update''), d)"
    if "filter (owned_row tid uid) (tasks d) = []"
      and "truthy (b_title b) \<or> truthy (b_description b) \<or> truthy (b_status b) \<or>
           truthy (b_priority b) \<or> truthy (b_deadline b)"
      and "bind_params E b \<noteq> None"
  proof -
    from that(3) obtain p where "bind_params E b = Some p" by blast
    with that(1,2) assms show ?thesis by (simp add: update_task_not_found)
  qed
  with assms show ?thesis
    by (simp add: update_task_others delete_task_others delete_task_not_found
        update_task_failed delete_task_failed)
qed

text \<open>
  User 8 asks for task 1, which is user 7's, and for task 2, which nobody has: the
  two updates get the same answer, so do the two deletes, and the store stays.
\<close>

theorem update_delete_touch_owned_row_only_witness:
  "update_task test_engine 8 ''1''
     \<lparr>b_title = JStr ''mine'', b_description = JUndefined, b_status = JUndefined,
      b_priority = JUndefined, b_deadline = JUndefined\<rparr> milk_db =
     ((404, Text ''Task not found or not authorized to update''), milk_db) \<and>
   update_task test_engine 8 ''2''
     \<lparr>b_title = JStr ''mine'', b_description = JUndefined, b_status = JUndefined,
      b_priority = JUndefined, b_deadline = JUndefined\<rparr> milk_db =
     ((404, Text ''Task not found or not authorized to update''), milk_db) \<and>
   delete_task test_engine 8 ''1'' milk_db =
     ((404, Text ''Task not found or not authorized to delete''), milk_db) \<and>
   delete_task test_engine 8 ''2'' milk_db =
     ((404, Text ''Task not found or not authorized to delete''), milk_db)"
proof -
  let ?b = "\<lparr>b_title = JStr ''mine'', b_description = JUndefined, b_status = JUndefined,
             b_priority = JUndefined, b_deadline = JUndefined\<rparr>"
  have one: "int4_in test_engine ''1'' = Some 1" and two: "int4_in test_engine ''2'' = Some 2"
    by (simp_all add: test_engine_def digits_in_def)
  have none: "filter (owned_row 1 8) (tasks milk_db) = []"
      "filter (owned_row 2 8) (tasks milk_db) = []"
    by (simp_all add: milk_db_def milk_def owned_row_def)
  have bound: "bind_params test_engine ?b \<noteq> None"
    by (simp add: bind_params_def varchar_in_def text_in_def varchar_def)
  from update_delete_touch_owned_row_only [OF one, of 8 ?b milk_db]
    update_delete_touch_owned_row_only [OF two, of 8 ?b milk_db] none bound
  show ?thesis by simp
qed

section \<open>Update: the fields it replaces\<close>

text \<open>
  C2, as amended. Let the body have at least one truthy field, let the store take its
  parameters (no text with the character of code 0, the texts for \<open>title\<close>, \<open>status\<close>
  and \<open>priority\<close> within 255, 50 and 50 characters, the deadline a timestamp \<open>dl\<close> or
  NULL), and let the user \<open>uid\<close> have a row with the id \<open>tid\<close>. Then the update is
  answered 200 with the new row, which is the old one except that every field that
  is sent (neither missing nor \<^verbatim>\<open>null\<close>) has the value sent; \<open>id\<close>, \<open>user_id\<close> and
  \<open>created_at\<close> and the fields not sent are as stored, and so is every other row.
  An update all of whose fields are missing or \<^verbatim>\<open>null\<close> is answered 400 and changes
  nothing.
\<close>

theorem update_replaces_sent_fields:
  assumes "truthy (b_title b) \<or> truthy (b_description b) \<or> truthy (b_status b) \<or>
           truthy (b_priority b) \<or> truthy (b_deadline b)"
    and "int4_in E id_text = Some tid"
    and "fits 255 (b_title b)" and "sendable (b_description b)"
    and "fits 50 (b_status b)" and "fits 50 (b_priority b)"
    and "nullable (timestamp_in E) (prepareValue (b_deadline b)) = Some dl"
    and "filter (owned_row tid uid) (tasks d) = t # ts"
  shows "(let new = (\<lambda>r. r\<lparr>title := (case prepareValue (b_title b) of
                                         None \<Rightarrow> title r | Some s \<Rightarrow> s),
                             description := (case prepareValue (b_description b) of
                                               None \<Rightarrow> description r | Some s \<Rightarrow> Some s),
                             status := (case prepareValue (b_status b) of
                                          None \<Rightarrow> status r | Some s \<Rightarrow> Some s),
                             priority := (case prepareValue (b_priority b) of
                                            None \<Rightarrow> priority r | Some s \<Rightarrow> Some s),
                             deadline := (case dl of
                                            None \<Rightarrow> deadline r | Some x \<Rightarrow> Some x)\<rparr>)
          in update_task E uid id_text b d =
               ((200, Row (new t)),
                d\<lparr>tasks := map (\<lambda>r. if owned_row tid uid r then new r else r) (tasks d)\<rparr>)) \<and>
         (prepareValue (b_title c) = None \<and> prepareValue (b_description c) = None \<and>
          prepareValue (b_status c) = None \<and> prepareValue (b_priority c) = None \<and>
          prepareValue (b_deadline c) = None \<longrightarrow>
          update_task E uid id_text c d =
            ((400, Text ''At least one field must be provided to update''), d))"
proof -
  let ?p = "\<lparr>p_title = prepareValue (b_title b),
             p_description = prepareValue (b_description b),
             p_status = prepareValue (b_status b),
             p_priority = prepareValue (b_priority b), p_deadline = dl\<rparr>"
  have new: "update_row ?p r =
      r\<lparr>title := (case prepareValue (b_title b) of None \<Rightarrow> title r | Some s \<Rightarrow> s),
        description := (case prepareValue (b_description b) of
                          None \<Rightarrow> description r | Some s \<Rightarrow> Some s),
        status := (case prepareValue (b_status b) of None \<Rightarrow> status r | Some s \<Rightarrow> Some s),
        priority := (case prepareValue (b_priority b) of
                       None \<Rightarrow> priority r | Some s \<Rightarrow> Some s),
        deadline := (case dl of None \<Rightarrow> deadline r | Some x \<Rightarrow> Some x)\<rparr>" for r
    by (simp add: update_row_def split: option.splits)
  have "bind_params E b = Some ?p"
    using assms(3-7) by (rule bind_params_fits)
  with assms(1,2,8) have "update_task E uid id_text b d =
      ((200, Row (update_row ?p t)),
       d\<lparr>tasks := map (\<lambda>r. if owned_row tid uid r then update_row ?p r else r) (tasks d)\<rparr>)"
    by (simp add: update_task_bound)
  moreover have "update_task E uid id_text c d =
      ((400, Text ''At least one field must be provided to update''), d)"
    if "prepareValue (b_title c) = None" "prepareValue (b_description c) = None"
      "prepareValue (b_status c) = None" "prepareValue (b_priority c) = None"
      "prepareValue (b_deadline c) = None"
  proof -
    have "js_not v" if "prepareValue v = None" for v
      using that by (cases v) simp_all
    with that show ?thesis by (simp only: update_task_refused)
  qed
  ultimately show ?thesis by (simp add: new Let_def)
qed

text \<open>
  The updates \<^verbatim>\<open>{"description": "", "status": "completed"}\<close> and
  \<^verbatim>\<open>{"title": null, "deadline": null}\<close> of user 7's task 1.
\<close>

theorem update_replaces_sent_fields_witness:
  "update_task test_engine 7 ''1''
     \<lparr>b_title = JUndefined, b_description = JStr '''', b_status = JStr ''completed'',
      b_priority = JUndefined, b_deadline = JUndefined\<rparr> milk_db =
   ((200, Row (milk\<lparr>description := Some '''', status := Some ''completed''\<rparr>)),
    milk_db\<lparr>tasks := [milk\<lparr>description := Some '''', status := Some ''completed''\<rparr>]\<rparr>) \<and>
   update_task test_engine 7 ''1''
     \<lparr>b_title = JNull, b_description = JUndefined, b_status = JUndefined,
      b_priority = JUndefined, b_deadline = JNull\<rparr> milk_db =
   ((400, Text ''At least one field must be provided to update''), milk_db)"
proof -
  let ?b = "\<lparr>b_title = JUndefined, b_description = JStr '''', b_status = JStr ''completed'',
             b_priority = JUndefined, b_deadline = JUndefined\<rparr>"
  let ?c = "\<lparr>b_title = JNull, b_description = JUndefined, b_status = JUndefined,
             b_priority = JUndefined, b_deadline = JNull\<rparr>"
  have "truthy (b_title ?b) \<or> truthy (b_description ?b) \<or> truthy (b_status ?b) \<or>
        truthy (b_priority ?b) \<or> truthy (b_deadline ?b)"
    by simp
  moreover have "int4_in test_engine ''1'' = Some 1"
    by (simp add: test_engine_def digits_in_def)
  moreover have "fits 255 (b_title ?b)" "sendable (b_description ?b)"
    "fits 50 (b_status ?b)" "fits 50 (b_priority ?b)"
    by (simp_all add: fits_def sendable_def)
  moreover have "nullable (timestamp_in test_engine) (prepareValue (b_deadline ?b)) = Some None"
    by simp
  moreover have "filter (owned_row 1 7) (tasks milk_db) = milk # []"
    by (simp add: milk_db_def milk_def owned_row_def)
  moreover have "prepareValue (b_title ?c) = None \<and> prepareValue (b_description ?c) = None \<and>
      prepareValue (b_status ?c) = None \<and> prepareValue (b_priority ?c) = None \<and>
      prepareValue (b_deadline ?c) = None"
    by simp
  ultimately show ?thesis
    using update_replaces_sent_fields
      [of ?b test_engine "''1''" 1 None 7 milk_db milk "[]" ?c]
    by (simp add: Let_def milk_db_def milk_def owned_row_def)
qed

text \<open>
  The claim of C2 as it was written fails on the update \<^verbatim>\<open>{"description": ""}\<close>:
  it sends one field, and it is refused with 400; the description stays what it was,
  not the empty string that was sent.
\<close>

theorem update_empty_string_counterexample:
  "update_task test_engine 7 ''1''
     \<lparr>b_title = JUndefined, b_description = JStr '''', b_status = JUndefined,
      b_priority = JUndefined, b_deadline = JUndefined\<rparr> milk_db =
     ((400, Text ''At least one field must be provided to update''), milk_db) \<and>
   tasks milk_db = [milk] \<and> user_id milk = 7 \<and> t_id milk = 1 \<and>
   description milk = Some ''two litres''"
  by (simp add: update_task_def milk_db_def milk_def)

section \<open>Create\<close>

lemma create_task_refused:
  assumes "js_not (b_title b) \<or> js_not (b_priority b) \<or>
           \<not> js_includes validPriorities (b_priority b) \<or>
           (truthy (b_status b) \<and> \<not> js_includes validStatuses (b_status b))"
  shows "fst (fst (create_task E new_id now uid b d)) = 400 \<and>
         snd (create_task E new_id now uid b d) = d"
  using assms by (auto simp: create_task_def)

lemma js_includes_truthy: "js_includes validPriorities v \<Longrightarrow> truthy v"
  by (cases v) (auto simp: validPriorities_def)

lemma create_task_checked:
  assumes "truthy (b_title b)" and "js_includes validPriorities (b_priority b)"
    and "js_not (b_status b) \<or> js_includes validStatuses (b_status b)"
  shows "create_task E new_id now uid b d =
           (case insert_task E new_id now uid b d of
              None \<Rightarrow> ((500, Text ''Failed to create task''), d)
            | Some (row, d') \<Rightarrow> ((201, Row row), d'))"
  using assms js_includes_truthy [of "b_priority b"] by (auto simp: create_task_def)

lemma create_task_created:
  assumes "create_task E new_id now uid b d = ((201, Row row), d')"
  shows "t_id row = new_id \<and> user_id row = uid \<and> created_at row = now \<and>
         tasks d' = tasks d @ [row] \<and> users d' = users d"
  using assms
  by (auto simp: create_task_def insert_task_def Let_def split: if_splits option.splits)

lemma bind_params_title:
  assumes "truthy (b_title b)" and "bind_params E b = Some p"
  shows "p_title p \<noteq> None"
  using assms by (cases "b_title b") (auto simp: bind_params_def split: option.splits)

lemma insert_task_taken:
  assumes "truthy (b_title b)"
  shows "(insert_task E new_id now uid b d \<noteq> None) =
         (bind_params E b \<noteq> None \<and> uid \<in> set (map u_id (users d)) \<and>
          new_id \<notin> set (map t_id (tasks d)))"
proof (cases "bind_params E b")
  case None
  then show ?thesis by (simp add: insert_task_def)
next
  case (Some p)
  with assms have "p_title p \<noteq> None" by (rule bind_params_title)
  with Some show ?thesis by (auto simp: insert_task_def Let_def split: if_splits)
qed

text \<open>
  C7, as amended. \<^verbatim>\<open>POST /tasks\<close> is answered 400, and stores nothing, when the title
  or the priority is falsy (missing, \<^verbatim>\<open>null\<close>, \<^verbatim>\<open>false\<close> or the empty string), when the
  priority is not one of \<open>low\<close>, \<open>medium\<close>, \<open>high\<close>, and when the status is truthy and
  not one of \<open>pending\<close>, \<open>in-progress\<close>, \<open>completed\<close>. It is not answered 400 when the
  title is truthy, the priority is one of the three and the status is missing,
  \<^verbatim>\<open>null\<close> or one of the three: then it is answered 201 when the store takes the
  parameters, has a user with the id of the request and no task with the id the
  sequence gives, and 500 with nothing stored otherwise. The row of a 201 has the user of the request as \<open>user_id\<close>, the value
  of the sequence as \<open>id\<close> and the time of the request as \<open>created_at\<close>, and it is
  the one row added to the table.
\<close>

theorem create_task_validation:
  "(js_not (b_title b) \<or> js_not (b_priority b) \<or>
      \<not> js_includes validPriorities (b_priority b) \<or>
      (truthy (b_status b) \<and> \<not> js_includes validStatuses (b_status b)) \<longrightarrow>
    fst (fst (create_task E new_id now uid b d)) = 400 \<and>
    snd (create_task E new_id now uid b d) = d) \<and>
   (truthy (b_title b) \<and> js_includes validPriorities (b_priority b) \<and>
      (prepareValue (b_status b) = None \<or> js_includes validStatuses (b_status b)) \<longrightarrow>
    fst (fst (create_task E new_id now uid b d)) \<noteq> 400 \<and>
    (bind_params E b \<noteq> None \<and> uid \<in> set (map u_id (users d)) \<and>
       new_id \<notin> set (map t_id (tasks d)) \<longrightarrow>
       (\<exists>row. fst (create_task E new_id now uid b d) = (201, Row row))) \<and>
    (bind_params E b = None \<or> uid \<notin> set (map u_id (users d)) \<or>
       new_id \<in> set (map t_id (tasks d)) \<longrightarrow>
       create_task E new_id now uid b d = ((500, Text ''Failed to create task''), d))) \<and>
   (\<forall>row d'. create_task E new_id now uid b d = ((201, Row row), d') \<longrightarrow>
      t_id row = new_id \<and> user_id row = uid \<and> created_at row = now \<and>
      tasks d' = tasks d @ [row] \<and> users d' = users d)"
proof -
  have "fst (fst (create_task E new_id now uid b d)) \<noteq> 400 \<and>
        (bind_params E b \<noteq> None \<and> uid \<in> set (map u_id (users d)) \<and>
           new_id \<notin> set (map t_id (tasks d)) \<longrightarrow>
           (\<exists>row. fst (create_task E new_id now uid b d) = (201, Row row))) \<and>
        (bind_params E b = None \<or> uid \<notin> set (map u_id (users d)) \<or>
           new_id \<in> set (map t_id (tasks d)) \<longrightarrow>
           create_task E new_id now uid b d = ((500, Text ''Failed to create task''), d))"
    if ok: "truthy (b_title b)" "js_includes validPriorities (b_priority b)"
      "prepareValue (b_status b) = None \<or> js_includes validStatuses (b_status b)"
  proof -
    from ok(3) have "js_not (b_status b) \<or> js_includes validStatuses (b_status b)"
      by (cases "b_status b") auto
    with ok(1,2) have eq: "create_task E new_id now uid b d =
        (case insert_task E new_id now uid b d of
           None \<Rightarrow> ((500, Text ''Failed to create task''), d)
         | Some (row, d') \<Rightarrow> ((201, Row row), d'))"
      by (rule create_task_checked)
    show ?thesis
    proof (cases "insert_task E new_id now uid b d")
      case None
      with insert_task_taken [OF ok(1), of E new_id now uid d] eq show ?thesis by auto
    next
      case (Some rd)
      with insert_task_taken [OF ok(1), of E new_id now uid d] eq show ?thesis
        by (cases rd) auto
    qed
  qed
  then show ?thesis
    using create_task_refused [of b E new_id now uid d]
      create_task_created [of E new_id now uid b d]
    by blast
qed

text \<open>
  The requests \<^verbatim>\<open>{"title": "buy milk", "priority": "low"}\<close> and
  \<^verbatim>\<open>{"title": "buy milk", "priority": "urgent"}\<close> of user 7, who is the first of the
  two users of the store, and the first request again from a user 9 the store does
  not have.
\<close>

theorem create_task_validation_witness:
  "fst (create_task test_engine 1 100 7
          \<lparr>b_title = JStr ''buy milk'', b_description = JUndefined, b_status = JUndefined,
           b_priority = JStr ''low'', b_deadline = JUndefined\<rparr> no_tasks) =
     (201, Row \<lparr>t_id = 1, user_id = 7, title = ''buy milk'', description = None,
                status = None, priority = Some ''low'', deadline = None,
                created_at = 100\<rparr>) \<and>
   fst (fst (create_task test_engine 1 100 7
          \<lparr>b_title = JStr ''buy milk'', b_description = JUndefined, b_status = JUndefined,
           b_priority = JStr ''urgent'', b_deadline = JUndefined\<rparr> no_tasks)) = 400 \<and>
   create_task test_engine 1 100 9
          \<lparr>b_title = JStr ''buy milk'', b_description = JUndefined, b_status = JUndefined,
           b_priority = JStr ''low'', b_deadline = JUndefined\<rparr> no_tasks =
     ((500, Text ''Failed to create task''), no_tasks)"
proof -
  let ?low = "\<lparr>b_title = JStr ''buy milk'', b_description = JUndefined,
               b_status = JUndefined, b_priority = JStr ''low'', b_deadline = JUndefined\<rparr>"
  let ?urgent = "\<lparr>b_title = JStr ''buy milk'', b_description = JUndefined,
                  b_status = JUndefined, b_priority = JStr ''urgent'',
                  b_deadline = JUndefined\<rparr>"
  have "\<not> js_includes validPriorities (b_priority ?urgent)"
    by (simp add: validPriorities_def)
  with create_task_validation [of ?urgent test_engine 1 100 7 no_tasks]
  have refused: "fst (fst (create_task test_engine 1 100 7 ?urgent no_tasks)) = 400"
    by blast
  have low: "truthy (b_title ?low)" "js_includes validPriorities (b_priority ?low)"
    "prepareValue (b_status ?low) = None" "bind_params test_engine ?low \<noteq> None"
    by (simp_all add: validPriorities_def bind_params_def varchar_in_def text_in_def
        varchar_def)
  have seven: "7 \<in> set (map u_id (users no_tasks))"
    and nine: "9 \<notin> set (map u_id (users no_tasks))"
    and fresh: "1 \<notin> set (map t_id (tasks no_tasks))"
    by (simp_all add: no_tasks_def ann_def bob_def)
  from low seven fresh create_task_validation [of ?low test_engine 1 100 7 no_tasks]
  obtain row where row: "fst (create_task test_engine 1 100 7 ?low no_tasks) = (201, Row row)"
    by blast
  then have "row = \<lparr>t_id = 1, user_id = 7, title = ''buy milk'', description = None,
                status = None, priority = Some ''low'', deadline = None,
                created_at = 100\<rparr>"
    by (simp add: create_task_def insert_task_def bind_params_def varchar_in_def
        text_in_def varchar_def validPriorities_def Let_def split: if_splits)
  moreover from low nine create_task_validation [of ?low test_engine 1 100 9 no_tasks]
  have "create_task test_engine 1 100 9 ?low no_tasks =
      ((500, Text ''Failed to create task''), no_tasks)"
    by blast
  ultimately show ?thesis using row refused by simp
qed

text \<open>
  The claim of C7 as it was written fails on the empty string, which is a value
  that is present. User 7 is a user of the store: \<^verbatim>\<open>{"title": "", "priority": "low"}\<close>
  is answered 400, and \<^verbatim>\<open>{"title": "buy milk", "priority": "low", "status": ""}\<close>
  is answered 201 and stored with the status \<^verbatim>\<open>''\<close>.
\<close>

theorem create_empty_string_counterexample:
  "create_task test_engine 1 100 7
     \<lparr>b_title = JStr '''', b_description = JUndefined, b_status = JUndefined,
      b_priority = JStr ''low'', b_deadline = JUndefined\<rparr> no_tasks =
     ((400, Text ''Title and priority are required''), no_tasks) \<and>
   fst (create_task test_engine 1 100 7
     \<lparr>b_title = JStr ''buy milk'', b_description = JUndefined, b_status = JStr '''',
      b_priority = JStr ''low'', b_deadline = JUndefined\<rparr> no_tasks) =
     (201, Row \<lparr>t_id = 1, user_id = 7, title = ''buy milk'', description = None,
                status = Some '''', priority = Some ''low'', deadline = None,
                created_at = 100\<rparr>) \<and>
   map u_id (users no_tasks) = [7, 8]"
  by (simp add: create_task_def insert_task_def bind_params_def varchar_in_def text_in_def
      varchar_def validPriorities_def validStatuses_def Let_def no_tasks_def ann_def bob_def)

section \<open>What the update stores\<close>

text \<open>
  C1. The update does not check the priority it is sent. User 7, a user of the
  store, creates a task with the priority \<open>low\<close> and then sends
  \<^verbatim>\<open>{"priority": "urgent"}\<close> for it: the request is answered 200, and the stored row
  has the priority \<open>urgent\<close>, which is none of \<open>low\<close>, \<open>medium\<close>, \<open>high\<close>.
\<close>

theorem update_stores_unlisted_priority:
  "create_task test_engine 1 100 7
     \<lparr>b_title = JStr ''buy milk'', b_description = JUndefined, b_status = JUndefined,
      b_priority = JStr ''low'', b_deadline = JUndefined\<rparr> \<lparr>users = [ann, bob], tasks = []\<rparr> =
     ((201, Row \<lparr>t_id = 1, user_id = 7, title = ''buy milk'', description = None,
                 status = None, priority = Some ''low'', deadline = None,
                 created_at = 100\<rparr>),
      \<lparr>users = [ann, bob],
       tasks = [\<lparr>t_id = 1, user_id = 7, title = ''buy milk'', description = None,
                 status = None, priority = Some ''low'', deadline = None,
                 created_at = 100\<rparr>]\<rparr>) \<and>
   update_task test_engine 7 ''1''
     \<lparr>b_title = JUndefined, b_description = JUndefined, b_status = JUndefined,
      b_priority = JStr ''urgent'', b_deadline = JUndefined\<rparr>
     \<lparr>users = [ann, bob],
      tasks = [\<lparr>t_id = 1, user_id = 7, title = ''buy milk'', description = None,
                status = None, priority = Some ''low'', deadline = None,
                created_at = 100\<rparr>]\<rparr> =
     ((200, Row \<lparr>t_id = 1, user_id = 7, title = ''buy milk'', description = None,
                 status = None, priority = Some ''urgent'', deadline = None,
                 created_at = 100\<rparr>),
      \<lparr>users = [ann, bob],
       tasks = [\<lparr>t_id = 1, user_id = 7, title = ''buy milk'', description = None,
                 status = None, priority = Some ''urgent'', deadline = None,
                 created_at = 100\<rparr>]\<rparr>) \<and>
   u_id ann = 7 \<and> ''urgent'' \<notin> set validPriorities"
  by (simp add: create_task_def insert_task_def update_task_def update_query_def
      bind_params_def varchar_in_def text_in_def varchar_def update_row_def owned_row_def
      test_engine_def digits_in_def validPriorities_def validStatuses_def Let_def
      ann_def bob_def)

section \<open>List, filter and search\<close>

lemma set_insert_by: "set (insert_by le x xs) = insert x (set xs)"
  by (induction xs) auto

lemma set_order_by: "set (order_by le xs) = set xs"
  by (induction xs) (simp_all add: order_by_def set_insert_by)

lemma sorted_wrt_insert_by:
  assumes total: "\<And>a b. le a b \<or> le b a"
    and trans: "\<And>a b c. le a b \<Longrightarrow> le b c \<Longrightarrow> le a c"
  shows "sorted_wrt le xs \<Longrightarrow> sorted_wrt le (insert_by le x xs)"
proof (induction xs)
  case Nil
  then show ?case by simp
next
  case (Cons y ys)
  show ?case
  proof (cases "le x y")
    case True
    with Cons.prems trans show ?thesis by auto
  next
    case False
    with total have "le y x" by blast
    with Cons False show ?thesis by (auto simp: set_insert_by)
  qed
qed

lemma sorted_wrt_order_by:
  assumes total: "\<And>a b. le a b \<or> le b a"
    and trans: "\<And>a b c. le a b \<Longrightarrow> le b c \<Longrightarrow> le a c"
  shows "sorted_wrt le (order_by le xs)"
proof (induction xs)
  case Nil
  show ?case by (simp add: order_by_def)
next
  case (Cons x xs)
  have "order_by le (x # xs) = insert_by le x (order_by le xs)"
    by (simp add: order_by_def)
  with Cons sorted_wrt_insert_by [of le, OF total trans] show ?case by simp
qed

lemma sorted_created_at_desc: "sorted_wrt created_at_desc (order_by created_at_desc xs)"
  by (rule sorted_wrt_order_by) (auto simp: created_at_desc_def)

lemma sorted_deadline_desc: "sorted_wrt deadline_desc (order_by deadline_desc xs)"
  by (rule sorted_wrt_order_by) (auto simp: deadline_desc_def split: option.splits)

text \<open>
  C5. \<^verbatim>\<open>GET /tasks/filter\<close> without \<open>status\<close>, \<open>priority\<close> and \<open>due_date\<close> gives the
  response of \<^verbatim>\<open>GET /tasks\<close>: the same rows in the same order. They are the rows of
  the user, each before all rows that were not created later.
\<close>

theorem filter_without_criteria_is_list:
  "filter_tasks E uid None None None d = list_tasks uid d \<and>
   set (rows_of (list_tasks uid d)) = {t \<in> set (tasks d). user_id t = uid} \<and>
   sorted_wrt created_at_desc (rows_of (list_tasks uid d))"
  by (simp add: filter_tasks_def list_tasks_def filter_where_def set_order_by
      sorted_created_at_desc)

lemma filter_empty_criteria_is_list:
  "filter_tasks E uid (Some []) (Some []) (Some []) d = list_tasks uid d"
  by (simp add: filter_tasks_def list_tasks_def filter_where_def)

lemma own_rows_of_others:
  assumes "a \<noteq> b"
  shows "filter (\<lambda>t. user_id t = b \<and> Q t) xs =
         filter (\<lambda>t. user_id t = b \<and> Q t) (filter (\<lambda>t. user_id t \<noteq> a) xs)"
proof -
  have "(user_id t \<noteq> a \<and> user_id t = b \<and> Q t) = (user_id t = b \<and> Q t)" for t
    using assms by auto
  then show ?thesis by simp
qed

lemma reads_of_others:
  assumes "a \<noteq> b"
    and "filter (\<lambda>t. user_id t \<noteq> a) (tasks d1) = filter (\<lambda>t. user_id t \<noteq> a) (tasks d2)"
  shows "list_tasks b d1 = list_tasks b d2"
    and "filter_tasks E b qs qp qd d1 = filter_tasks E b qs qp qd d2"
    and "search_tasks b kw d1 = search_tasks b kw d2"
proof -
  have eq: "filter (\<lambda>t. user_id t = b \<and> Q t) (tasks d1) =
            filter (\<lambda>t. user_id t = b \<and> Q t) (tasks d2)" for Q
    using own_rows_of_others [OF assms(1), of Q "tasks d1"]
      own_rows_of_others [OF assms(1), of Q "tasks d2"] assms(2)
    by simp
  from eq [of "\<lambda>t. True"] show "list_tasks b d1 = list_tasks b d2"
    by (simp add: list_tasks_def)
  show "filter_tasks E b qs qp qd d1 = filter_tasks E b qs qp qd d2"
    by (simp add: filter_tasks_def eq split: option.splits)
  show "search_tasks b kw d1 = search_tasks b kw d2"
    by (simp add: search_tasks_def eq split: option.splits)
qed

lemma reads_own_rows:
  "t \<in> set (rows_of (list_tasks b d)) \<Longrightarrow> user_id t = b"
  "t \<in> set (rows_of (filter_tasks E b qs qp qd d)) \<Longrightarrow> user_id t = b"
  "t \<in> set (rows_of (search_tasks b kw d)) \<Longrightarrow> user_id t = b"
  by (auto simp: list_tasks_def filter_tasks_def search_tasks_def set_order_by
      split: option.splits if_splits)

text \<open>
  C4. Let \<open>a\<close> and \<open>b\<close> be two users. A task that \<open>a\<close> creates, with any body, is
  in none of the rows that \<^verbatim>\<open>GET /tasks\<close>, \<^verbatim>\<open>GET /tasks/filter\<close> and
  \<^verbatim>\<open>GET /tasks/search\<close> give \<open>b\<close>, with any parameters, and the three responses are
  those of the store before the task was created. More generally, two stores whose
  tasks differ only in the rows of \<open>a\<close> give \<open>b\<close> the same three responses.
\<close>

theorem reads_hide_tasks_of_others:
  assumes "a \<noteq> b"
  shows "(\<forall>row d'. create_task E new_id now a body d = ((201, Row row), d') \<longrightarrow>
            row \<notin> set (rows_of (list_tasks b d')) \<and>
            row \<notin> set (rows_of (filter_tasks E b qs qp qd d')) \<and>
            row \<notin> set (rows_of (search_tasks b kw d')) \<and>
            list_tasks b d' = list_tasks b d \<and>
            filter_tasks E b qs qp qd d' = filter_tasks E b qs qp qd d \<and>
            search_tasks b kw d' = search_tasks b kw d) \<and>
         (filter (\<lambda>t. user_id t \<noteq> a) (tasks d1) = filter (\<lambda>t. user_id t \<noteq> a) (tasks d2) \<longrightarrow>
            list_tasks b d1 = list_tasks b d2 \<and>
            filter_tasks E b qs qp qd d1 = filter_tasks E b qs qp qd d2 \<and>
            search_tasks b kw d1 = search_tasks b kw d2)"
proof -
  have "row \<notin> set (rows_of (list_tasks b d')) \<and>
        row \<notin> set (rows_of (filter_tasks E b qs qp qd d')) \<and>
        row \<notin> set (rows_of (search_tasks b kw d')) \<and>
        list_tasks b d' = list_tasks b d \<and>
        filter_tasks E b qs qp qd d' = filter_tasks E b qs qp qd d \<and>
        search_tasks b kw d' = search_tasks b kw d"
    if "create_task E new_id now a body d = ((201, Row row), d')" for row d'
  proof -
    from that have row: "user_id row = a" and d': "tasks d' = tasks d @ [row]"
      using create_task_created by blast+
    from row assms have "user_id row \<noteq> b" by simp
    then have hidden: "row \<notin> set (rows_of (list_tasks b d'))"
      "row \<notin> set (rows_of (filter_tasks E b qs qp qd d'))"
      "row \<notin> set (rows_of (search_tasks b kw d'))"
      using reads_own_rows by blast+
    from row d' have "filter (\<lambda>t. user_id t \<noteq> a) (tasks d') =
        filter (\<lambda>t. user_id t \<noteq> a) (tasks d)"
      by simp
    with hidden reads_of_others [OF assms, of d' d] show ?thesis by simp
  qed
  with reads_of_others [OF assms, of d1 d2] show ?thesis by blast
qed

text \<open>User 8 creates a task in the store of user 7's task; user 7 is shown what
  was shown before.\<close>

theorem reads_hide_tasks_of_others_witness:
  "fst (create_task test_engine 2 200 8
          \<lparr>b_title = JStr ''buy milk too'', b_description = JUndefined,
           b_status = JUndefined, b_priority = JStr ''high'', b_deadline = JUndefined\<rparr>
          milk_db) =
     (201, Row \<lparr>t_id = 2, user_id = 8, title = ''buy milk too'', description = None,
                status = None, priority = Some ''high'', deadline = None,
                created_at = 200\<rparr>) \<and>
   search_tasks 7 (Some ''milk'')
     (snd (create_task test_engine 2 200 8
          \<lparr>b_title = JStr ''buy milk too'', b_description = JUndefined,
           b_status = JUndefined, b_priority = JStr ''high'', b_deadline = JUndefined\<rparr>
          milk_db)) =
     search_tasks 7 (Some ''milk'') milk_db \<and>
   list_tasks 7
     (snd (create_task test_engine 2 200 8
          \<lparr>b_title = JStr ''buy milk too'', b_description = JUndefined,
           b_status = JUndefined, b_priority = JStr ''high'', b_deadline = JUndefined\<rparr>
          milk_db)) =
     (200, Rows [milk])"
proof -
  let ?b = "\<lparr>b_title = JStr ''buy milk too'', b_description = JUndefined,
             b_status = JUndefined, b_priority = JStr ''high'', b_deadline = JUndefined\<rparr>"
  let ?row = "\<lparr>t_id = 2, user_id = 8, title = ''buy milk too'', description = None,
               status = None, priority = Some ''high'', deadline = None,
               created_at = 200\<rparr>"
  have milk_id: "t_id milk = 1"
    by (simp add: milk_def)
  have created: "create_task test_engine 2 200 8 ?b milk_db =
      ((201, Row ?row), milk_db\<lparr>tasks := [milk, ?row]\<rparr>)"
    using milk_id
    by (simp add: create_task_def insert_task_def bind_params_def varchar_in_def
        text_in_def varchar_def validPriorities_def Let_def milk_db_def ann_def bob_def)
  have "(8::int) \<noteq> 7" by simp
  from reads_hide_tasks_of_others [OF this, of test_engine 2 200 ?b milk_db None None None
      "Some ''milk''"] created
  have "list_tasks 7 (milk_db\<lparr>tasks := [milk, ?row]\<rparr>) = list_tasks 7 milk_db"
    and "search_tasks 7 (Some ''milk'') (milk_db\<lparr>tasks := [milk, ?row]\<rparr>) =
      search_tasks 7 (Some ''milk'') milk_db"
    by blast+
  moreover have "list_tasks 7 milk_db = (200, Rows [milk])"
    by (simp add: list_tasks_def order_by_def milk_db_def milk_def)
  ultimately show ?thesis by (simp add: created)
qed

section \<open>Login: the row the password is checked against\<close>

lemma login_checked:
  assumes "truthy ident" and "s \<noteq> []"
  shows "login E ident (JStr s) d =
           (case filter (\<lambda>u. Some (email u) = prepareValue ident \<or>
                              Some (username u) = prepareValue ident) (users d) of
              [] \<Rightarrow> (404, Text ''User not found'')
            | u # rest \<Rightarrow>
                if bcrypt_compare E s (password u)
                then (200, Login ''Login successful'' (jwt_sign E (u_id u) (username u)))
                else (401, Text ''Invalid password''))"
  using assms by (simp add: login_def split: list.splits)

text \<open>
  With a password that is a string and not empty, the login is answered 404 when no
  user has the identifier as e-mail address or as name, and 401 when the first such
  user has a hash that \<^verbatim>\<open>bcrypt.compare\<close> does not accept for the password.
\<close>

lemma login_string_password:
  assumes "truthy ident" and "s \<noteq> []"
  shows "(filter (\<lambda>u. Some (email u) = prepareValue ident \<or>
                       Some (username u) = prepareValue ident) (users d) = [] \<longrightarrow>
            login E ident (JStr s) d = (404, Text ''User not found'')) \<and>
         (\<forall>u rest. filter (\<lambda>u. Some (email u) = prepareValue ident \<or>
                                Some (username u) = prepareValue ident) (users d) = u # rest \<and>
                    \<not> bcrypt_compare E s (password u) \<longrightarrow>
            login E ident (JStr s) d = (401, Text ''Invalid password''))"
  using assms by (auto simp: login_checked)

lemma login_other_password:
  assumes "truthy ident" and "truthy pw" and "\<forall>s. pw \<noteq> JStr s"
    and "filter (\<lambda>u. Some (email u) = prepareValue ident \<or>
                     Some (username u) = prepareValue ident) (users d) = u # rest"
  shows "login E ident pw d = (500, Text ''Internal server error'')"
  using assms by (cases pw) (simp_all add: login_def)

text \<open>
  C8. The login does not check that the password is a string, as the registration
  does (\<^verbatim>\<open>typeof password !== "string"\<close>). The request
  \<^verbatim>\<open>{"emailOrUsername": "ann@x.com", "password": true}\<close> has both fields, and a user
  has this e-mail address; \<^verbatim>\<open>bcrypt.compare\<close> throws on the password, and the answer
  is 500, not 401. The password \<^verbatim>\<open>"true"\<close>, a string, is answered 401.
\<close>

theorem login_password_not_a_string:
  "login test_engine (JStr ''ann@x.com'') (JBool True) \<lparr>users = [ann, bob], tasks = []\<rparr> =
     (500, Text ''Internal server error'') \<and>
   email ann = ''ann@x.com'' \<and>
   login test_engine (JStr ''ann@x.com'') (JStr ''true'') \<lparr>users = [ann, bob], tasks = []\<rparr> =
     (401, Text ''Invalid password'')"
  by (simp add: login_def test_engine_def ann_def bob_def)

text \<open>
  C10. When several users have the identifier as e-mail address or as name, the
  password is checked against the hash of the first of them in the order of the
  store, and of no other: the login succeeds, with a token for that user, exactly
  when \<^verbatim>\<open>bcrypt.compare\<close> accepts the password for that hash, and is answered 401
  otherwise, also when the password is that of another of these users.
\<close>

theorem login_checks_first_match:
  assumes "truthy ident" and "s \<noteq> []"
    and "filter (\<lambda>u. Some (email u) = prepareValue ident \<or>
                     Some (username u) = prepareValue ident) (users d) = u # rest"
  shows "login E ident (JStr s) d =
           (if bcrypt_compare E s (password u)
            then (200, Login ''Login successful'' (jwt_sign E (u_id u) (username u)))
            else (401, Text ''Invalid password''))"
  using assms by (simp add: login_checked)

text \<open>\<open>bob@x.com\<close> is the name of the first user and the e-mail address of the
  second, whose password is \<open>two\<close>.\<close>

theorem login_checks_first_match_witness:
  "login test_engine (JStr ''bob@x.com'') (JStr ''two'') \<lparr>users = [ann, bob], tasks = []\<rparr> =
     (401, Text ''Invalid password'') \<and>
   bcrypt_compare test_engine ''two'' (password bob) \<and>
   login test_engine (JStr ''bob@x.com'') (JStr ''one'') \<lparr>users = [ann, bob], tasks = []\<rparr> =
     (200, Login ''Login successful'' ''bob@x.com'')"
proof -
  let ?d = "\<lparr>users = [ann, bob], tasks = []\<rparr>"
  have both: "filter (\<lambda>u. Some (email u) = prepareValue (JStr ''bob@x.com'') \<or>
                    Some (username u) = prepareValue (JStr ''bob@x.com'')) (users ?d) =
        ann # [bob]"
    by (simp add: ann_def bob_def)
  have "truthy (JStr ''bob@x.com'')" "''two'' \<noteq> []" "''one'' \<noteq> []"
    by simp_all
  with login_checks_first_match [OF _ _ both, of "''two''" test_engine]
    login_checks_first_match [OF _ _ both, of "''one''" test_engine]
  show ?thesis by (simp add: test_engine_def ann_def bob_def)
qed

section \<open>Search: the keyword is a pattern\<close>

lemma starts_with_iff: "starts_with s k = (\<exists>q. s = k @ q)"
  by (induction s k rule: starts_with.induct) auto

lemma contains_iff: "contains s k = (\<exists>p q. s = p @ k @ q)"
proof (induction s)
  case Nil
  then show ?case by auto
next
  case (Cons c s)
  have "(\<exists>p q. c # s = p @ k @ q) = ((\<exists>q. c # s = k @ q) \<or> (\<exists>p q. s = p @ k @ q))"
    (is "?l = ?r")
  proof
    assume ?l
    then obtain p q where pq: "c # s = p @ k @ q" by blast
    show ?r
    proof (cases p)
      case Nil
      with pq show ?thesis by auto
    next
      case (Cons x p')
      with pq have "s = p' @ k @ q" by simp
      then show ?thesis by blast
    qed
  next
    assume ?r
    then show ?l
    proof
      assume "\<exists>q. c # s = k @ q"
      then obtain q where "c # s = [] @ k @ q" by auto
      then show ?l by blast
    next
      assume "\<exists>p q. s = p @ k @ q"
      then obtain p q where "c # s = (c # p) @ k @ q" by auto
      then show ?l by blast
    qed
  qed
  with Cons show ?case by (simp add: starts_with_iff)
qed

lemma like_match_percent: "like_match ''%'' s"
  by (induction s) simp_all

lemma like_match_plain_prefix:
  "list_all plain_char k \<Longrightarrow> like_match (k @ ''%'') s = starts_with s k"
proof (induction k arbitrary: s)
  case Nil
  show ?case using like_match_percent by simp
next
  case (Cons c k)
  then show ?case by (cases s) (auto simp: plain_char_def)
qed

lemma like_match_plain_infix:
  "list_all plain_char k \<Longrightarrow> like_match (CHR ''%'' # k @ ''%'') s = contains s k"
proof (induction s)
  case Nil
  then show ?case by (cases k) (auto simp: like_match_plain_prefix plain_char_def)
next
  case (Cons c s)
  then show ?case by (simp add: like_match_plain_prefix)
qed

lemma plain_char_code:
  "plain_char c =
     (of_char c \<noteq> (37::nat) \<and> of_char c \<noteq> (95::nat) \<and> of_char c \<noteq> (92::nat))"
proof -
  have "(c = d) = (of_char c = (of_char d :: nat))" for d
    by (simp only: of_char_eq_iff)
  from this [of "CHR ''%''"] this [of "CHR ''_''"] this [of "CHR 0x5C"]
  show ?thesis by (simp add: plain_char_def)
qed

lemma plain_char_lower: "plain_char (lower c) = plain_char c"
proof (cases "65 \<le> (of_char c :: nat) \<and> (of_char c :: nat) \<le> 90")
  case True
  then have "(of_char (lower c) :: nat) = of_char c + 32"
    by (simp add: lower_def)
  with True show ?thesis by (simp add: plain_char_code)
next
  case False
  then show ?thesis by (auto simp: lower_def)
qed

lemma list_all_plain_lower: "list_all plain_char (map lower k) = list_all plain_char k"
  by (induction k) (simp_all add: plain_char_lower)

lemma ilike_plain:
  assumes "list_all plain_char k"
  shows "ilike s (CHR ''%'' # k @ ''%'') = contains_ci s k"
proof -
  have "map lower (CHR ''%'' # k @ ''%'') = CHR ''%'' # map lower k @ ''%''"
    by (simp add: lower_def)
  then have "ilike s (CHR ''%'' # k @ ''%'') =
      like_match (CHR ''%'' # map lower k @ ''%'') (map lower s)"
    by (simp only: ilike_def)
  also have "\<dots> = contains (map lower s) (map lower k)"
    using assms by (simp only: like_match_plain_infix list_all_plain_lower)
  finally show ?thesis by (simp only: contains_ci_def)
qed

text \<open>
  For a keyword without \<^verbatim>\<open>%\<close>, \<^verbatim>\<open>_\<close> and backslash the search is the one of the
  specification: the rows of the user whose title or description contains the
  keyword, whatever the case of the letters, by descending deadline.
\<close>

lemma search_tasks_plain:
  assumes "k \<noteq> []" and "list_all plain_char k"
  shows "search_tasks uid (Some k) d =
           (200, Rows (order_by deadline_desc
              (filter (\<lambda>t. user_id t = uid \<and>
                            (contains_ci (title t) k \<or>
                             (case description t of None \<Rightarrow> False
                              | Some s \<Rightarrow> contains_ci s k)))
                 (tasks d))))"
  using assms
  by (simp add: search_tasks_def search_where_def ilike_plain cong: option.case_cong)

lemma search_tasks_sorted: "sorted_wrt deadline_desc (rows_of (search_tasks uid kw d))"
  by (simp add: search_tasks_def sorted_deadline_desc split: option.splits)

lemma search_tasks_no_keyword:
  "search_tasks uid None d = (400, Text ''Keyword is required for searching'')"
  "search_tasks uid (Some []) d = (400, Text ''Keyword is required for searching'')"
  by (simp_all add: search_tasks_def)

text \<open>
  C6. The keyword is put between two \<^verbatim>\<open>%\<close> as it is, so its own \<^verbatim>\<open>%\<close>, \<^verbatim>\<open>_\<close> and
  backslashes are read as a pattern. The search of user 7 for \<^verbatim>\<open>_\<close> returns the task
  \<open>buy milk\<close>, \<open>two litres\<close>, where no underscore occurs. The search for a backslash
  does not return the task with the title \<^verbatim>\<open>a\b\<close>.
\<close>

theorem search_reads_keyword_as_pattern:
  "search_tasks 7 (Some ''_'') milk_db = (200, Rows [milk]) \<and>
   title milk = ''buy milk'' \<and> \<not> contains_ci ''buy milk'' ''_'' \<and>
   description milk = Some ''two litres'' \<and> \<not> contains_ci ''two litres'' ''_'' \<and>
   search_tasks 7 (Some [CHR 0x5C])
     \<lparr>users = [],
      tasks = [\<lparr>t_id = 1, user_id = 7, title = [CHR ''a'', CHR 0x5C, CHR ''b''],
                description = None, status = None, priority = Some ''low'',
                deadline = None, created_at = 100\<rparr>]\<rparr> = (200, Rows []) \<and>
   contains_ci [CHR ''a'', CHR 0x5C, CHR ''b''] [CHR 0x5C]"
  by (simp add: search_tasks_def search_where_def ilike_def lower_def order_by_def
      milk_db_def milk_def contains_ci_def)

end
